theory Spec2Isabelle
  imports Main "HOL-Library.Word"
begin

unbundle bit_operations_syntax

section \<open>The packaging manifest of rewroute\<close>

text \<open>
  The repository is one file, \<^verbatim>\<open>setup.py\<close>. Lines 3 and 4 read the text of
  \<^verbatim>\<open>README.md\<close> inside a \<^verbatim>\<open>with\<close> block:
  \<^verbatim>\<open>with open("README.md", "r", encoding="utf-8") as fh: long_description = fh.read()\<close>.
  Lines 6 to 37 are one call of setuptools' \<^verbatim>\<open>setup\<close> with thirteen keyword
  arguments, twelve of them literals and \<^verbatim>\<open>packages=find_packages()\<close>.

  The embedding starts after the import on line 1 has bound \<^verbatim>\<open>setup\<close> and
  \<^verbatim>\<open>find_packages\<close>. What \<^verbatim>\<open>setup\<close> does with its arguments is
  setuptools' business and not part of the repository: the model records the call and
  its arguments, and takes as a parameter whether the call returns or raises (it raises
  \<^verbatim>\<open>SystemExit\<close> when the command line names no command or a command fails).
  The result of \<^verbatim>\<open>find_packages()\<close> depends on the directories beside the
  manifest and is a parameter of the model too. \<^verbatim>\<open>open\<close> and
  \<^verbatim>\<open>read\<close> are built-ins of the language; they are modelled as the Python
  documentation describes them for these arguments.
\<close>

subsection \<open>Text files as the Python runtime reads them\<close>

text \<open>
  A Python \<^verbatim>\<open>str\<close> is a sequence of Unicode code points, so the text read from
  the file is a list of naturals. The literals of the manifest are ASCII and are kept as
  \<^typ>\<open>string\<close>.
\<close>

type_synonym byte = "8 word"
type_synonym ustr = "nat list"

datatype error = FileNotFoundError | OSError | UnicodeDecodeError | SystemExit

text \<open>
  \<open>OSError\<close> stands for the subclasses of Python's \<^verbatim>\<open>OSError\<close> other than
  \<^verbatim>\<open>FileNotFoundError\<close> (permission denied, is a directory, I/O error).
  \<^verbatim>\<open>UnicodeDecodeError\<close> is a \<^verbatim>\<open>ValueError\<close>, not an \<^verbatim>\<open>OSError\<close>.
  \<^verbatim>\<open>SystemExit\<close> is what \<^verbatim>\<open>setup\<close> raises when it gives up.
\<close>

definition is_file_access_error :: "error \<Rightarrow> bool" where
  "is_file_access_error e \<longleftrightarrow> e = FileNotFoundError \<or> e = OSError"

text \<open>
  What lies under the name \<^verbatim>\<open>README.md\<close> in a directory: nothing; something
  that cannot be opened for reading; a file that opens but whose read fails in the
  operating system; or a regular file with its bytes.
\<close>

datatype readme_file = Missing | Unopenable | Faulty | Regular "byte list"



text \<open>
  The \<^verbatim>\<open>utf-8\<close> codec with the default error handler \<^verbatim>\<open>strict\<close>: the
  well-formed byte sequences of the Unicode standard and nothing else. Overlong forms,
  surrogates (\<open>U+D800\<close> to \<open>U+DFFF\<close>), code points above \<open>U+10FFFF\<close>, stray
  continuation bytes and truncated sequences are refused.
\<close>

definition is_cont :: "byte \<Rightarrow> bool" where
  "is_cont b \<longleftrightarrow> 0x80 \<le> b \<and> b \<le> 0xBF"

definition cont_bits :: "byte \<Rightarrow> nat" where
  "cont_bits b = unat (b AND 0x3F)"

definition second_ok3 :: "byte \<Rightarrow> byte \<Rightarrow> bool" where
  "second_ok3 b c \<longleftrightarrow>
     (if b = 0xE0 then 0xA0 \<le> c \<and> c \<le> 0xBF
      else if b = 0xED then 0x80 \<le> c \<and> c \<le> 0x9F
      else is_cont c)"

definition second_ok4 :: "byte \<Rightarrow> byte \<Rightarrow> bool" where
  "second_ok4 b c \<longleftrightarrow>
     (if b = 0xF0 then 0x90 \<le> c \<and> c \<le> 0xBF
      else if b = 0xF4 then 0x80 \<le> c \<and> c \<le> 0x8F
      else is_cont c)"

fun utf8_decode :: "byte list \<Rightarrow> ustr option" where
  "utf8_decode [] = Some []"
| "utf8_decode (b # bs) =
     (if b < 0x80 then map_option (Cons (unat b)) (utf8_decode bs)
      else if 0xC2 \<le> b \<and> b \<le> 0xDF then
        (case bs of
           c1 # rest \<Rightarrow>
             if is_cont c1
             then map_option (Cons (unat (b AND 0x1F) * 64 + cont_bits c1)) (utf8_decode rest)
             else None
         | _ \<Rightarrow> None)
      else if 0xE0 \<le> b \<and> b \<le> 0xEF then
        (case bs of
           c1 # c2 # rest \<Rightarrow>
             if second_ok3 b c1 \<and> is_cont c2
             then map_option
                    (Cons (unat (b AND 0x0F) * 4096 + cont_bits c1 * 64 + cont_bits c2))
                    (utf8_decode rest)
             else None
         | _ \<Rightarrow> None)
      else if 0xF0 \<le> b \<and> b \<le> 0xF4 then
        (case bs of
           c1 # c2 # c3 # rest \<Rightarrow>
             if second_ok4 b c1 \<and> is_cont c2 \<and> is_cont c3
             then map_option
                    (Cons (unat (b AND 0x07) * 262144 + cont_bits c1 * 4096
                           + cont_bits c2 * 64 + cont_bits c3))
                    (utf8_decode rest)
             else None
         | _ \<Rightarrow> None)
      else None)"

text \<open>
  Text mode with the default \<^verbatim>\<open>newline=None\<close> translates the line endings
  \<^verbatim>\<open>\r\n\<close> and \<^verbatim>\<open>\r\<close> to \<^verbatim>\<open>\n\<close> on input.
\<close>

fun universal_newlines :: "ustr \<Rightarrow> ustr" where
  "universal_newlines [] = []"
| "universal_newlines [c] = [if c = 13 then 10 else c]"
| "universal_newlines (c # d # cs) =
     (if c = 13 \<and> d = 10 then 10 # universal_newlines cs
      else if c = 13 then 10 # universal_newlines (d # cs)
      else c # universal_newlines (d # cs))"

text \<open>
  The code points a Python \<^verbatim>\<open>str\<close> decoded from UTF-8 can hold: the Unicode
  scalar values.
\<close>

definition scalar_value :: "nat \<Rightarrow> bool" where
  "scalar_value c \<longleftrightarrow> c < 0x110000 \<and> \<not> (0xD800 \<le> c \<and> c \<le> 0xDFFF)"

subsection \<open>The build-time state\<close>

text \<open>
  The thirteen keyword arguments of the call on lines 6 to 37. The dictionary
  \<^verbatim>\<open>extras_require\<close> is an association list, in the order of the literal.
\<close>

record kwargs =
  name :: string
  version :: string
  author :: string
  author_email :: string
  description :: string
  long_description :: ustr
  long_description_content_type :: string
  url :: string
  packages :: "string list"
  classifiers :: "string list"
  python_requires :: string
  install_requires :: "string list"
  extras_require :: "(string \<times> string list) list"

text \<open>
  The state the manifest acts on: the file handles it holds open, and the calls of
  \<^verbatim>\<open>setup\<close> made so far, oldest first, each with the arguments it was given.
\<close>

record build_state =
  open_handles :: nat
  setup_calls :: "kwargs list"

datatype file_handle = Handle "byte list option"

definition open_readme :: "readme_file \<Rightarrow> build_state \<Rightarrow> (error + file_handle) \<times> build_state" where
  \<comment> \<open>\<^verbatim>\<open>open("README.md", "r", encoding="utf-8")\<close>\<close>
  "open_readme f s =
     (case f of
        Missing \<Rightarrow> (Inl FileNotFoundError, s)
      | Unopenable \<Rightarrow> (Inl OSError, s)
      | Faulty \<Rightarrow> (Inr (Handle None), s\<lparr>open_handles := open_handles s + 1\<rparr>)
      | Regular bs \<Rightarrow> (Inr (Handle (Some bs)), s\<lparr>open_handles := open_handles s + 1\<rparr>))"

definition fh_read :: "file_handle \<Rightarrow> error + ustr" where
  \<comment> \<open>\<^verbatim>\<open>fh.read()\<close>: all the bytes, decoded, line endings translated\<close>
  "fh_read fh =
     (case fh of
        Handle None \<Rightarrow> Inl OSError
      | Handle (Some bs) \<Rightarrow>
          (case utf8_decode bs of
             None \<Rightarrow> Inl UnicodeDecodeError
           | Some t \<Rightarrow> Inr (universal_newlines t)))"

definition close_handle :: "build_state \<Rightarrow> build_state" where
  \<comment> \<open>leaving the \<^verbatim>\<open>with\<close> block, by its end or by an exception\<close>
  "close_handle s = s\<lparr>open_handles := open_handles s - 1\<rparr>"

definition read_readme :: "readme_file \<Rightarrow> build_state \<Rightarrow> (error + ustr) \<times> build_state" where
  \<comment> \<open>lines 3 and 4\<close>
  "read_readme f s =
     (case open_readme f s of
        (Inl e, s1) \<Rightarrow> (Inl e, s1)
      | (Inr fh, s1) \<Rightarrow> (fh_read fh, close_handle s1))"

text \<open>
  The behaviour of setuptools' \<^verbatim>\<open>setup\<close> on the arguments it is given:
  \<open>None\<close> when the call returns, \<open>Some e\<close> when it raises \<open>e\<close>. It depends on the
  command line and on the commands run, none of which the manifest controls.
\<close>

type_synonym setup_behaviour = "kwargs \<Rightarrow> error option"

definition setup_returns :: setup_behaviour where
  \<comment> \<open>a run whose commands complete\<close>
  "setup_returns kw = None"


definition setup_call ::
  "setup_behaviour \<Rightarrow> kwargs \<Rightarrow> build_state \<Rightarrow> (error + unit) \<times> build_state" where
  \<comment> \<open>the call itself: recorded with its arguments, then it returns or raises\<close>
  "setup_call behaviour kw s =
     ((case behaviour kw of None \<Rightarrow> Inr () | Some e \<Rightarrow> Inl e),
      s\<lparr>setup_calls := setup_calls s @ [kw]\<rparr>)"

definition setup_kwargs :: "ustr \<Rightarrow> string list \<Rightarrow> kwargs" where
  \<comment> \<open>the keyword arguments of lines 7 to 37\<close>
  "setup_kwargs text found_packages =
     \<lparr>name = ''rewroute'',
      version = ''0.1.0'',
      author = ''bw'',
      author_email = ''b7w@pkg.bio'',
      description = ''a lightweight proxy hosting thing'',
      long_description = text,
      long_description_content_type = ''text/markdown'',
      url = ''https://github.com/cabinfvr/rewroute'',
      packages = found_packages,
      classifiers =
        [''Development Status :: 3 - Alpha'',
         ''Intended Audience :: Developers'',
         ''License :: OSI Approved :: MIT License'',
         ''Operating System :: OS Independent'',
         ''Programming Language :: Python :: 3'',
         ''Programming Language :: Python :: 3.7'',
         ''Programming Language :: Python :: 3.8'',
         ''Programming Language :: Python :: 3.9'',
         ''Programming Language :: Python :: 3.10'',
         ''Programming Language :: Python :: 3.11''],
      python_requires = ''>=3.7'',
      install_requires = [],
      extras_require = [(''dev'', [''pytest>=6.0'', ''black'', ''flake8''])]\<rparr>"

definition setup_py ::
  "setup_behaviour \<Rightarrow> readme_file \<Rightarrow> string list \<Rightarrow> build_state
     \<Rightarrow> (error + unit) \<times> build_state" where
  \<comment> \<open>the whole file: an exception of the read or of the call leaves the module,
      nothing catches it\<close>
  "setup_py behaviour readme found_packages s =
     (case read_readme readme s of
        (Inl e, s1) \<Rightarrow> (Inl e, s1)
      | (Inr text, s1) \<Rightarrow> setup_call behaviour (setup_kwargs text found_packages) s1)"

subsection \<open>Observations of a run\<close>

definition succeeds ::
  "setup_behaviour \<Rightarrow> readme_file \<Rightarrow> string list \<Rightarrow> build_state \<Rightarrow> bool" where
  "succeeds behaviour readme pk s \<longleftrightarrow> fst (setup_py behaviour readme pk s) = Inr ()"


definition passed_to_setup ::
  "setup_behaviour \<Rightarrow> readme_file \<Rightarrow> string list \<Rightarrow> build_state \<Rightarrow> kwargs list" where
  \<comment> \<open>the calls of \<^verbatim>\<open>setup\<close> this run has added\<close>
  "passed_to_setup behaviour readme pk s =
     drop (length (setup_calls s)) (setup_calls (snd (setup_py behaviour readme pk s)))"




text \<open>The twelve arguments that do not come from \<^verbatim>\<open>find_packages()\<close>.\<close>

definition listed_fields ::
  "kwargs \<Rightarrow> string \<times> string \<times> string \<times> string \<times> string \<times> ustr \<times> string \<times> string
     \<times> string list \<times> string \<times> string list \<times> (string \<times> string list) list" where
  "listed_fields kw =
     (name kw, version kw, author kw, author_email kw, description kw, long_description kw,
      long_description_content_type kw, url kw, classifiers kw, python_requires kw,
      install_requires kw, extras_require kw)"

section \<open>Properties\<close>

subsection \<open>The read, case by case\<close>

lemma read_readme_Missing: "read_readme Missing s = (Inl FileNotFoundError, s)"
  by (simp add: read_readme_def open_readme_def)

lemma read_readme_Unopenable: "read_readme Unopenable s = (Inl OSError, s)"
  by (simp add: read_readme_def open_readme_def)

lemma read_readme_Faulty: "read_readme Faulty s = (Inl OSError, s)"
  by (simp add: read_readme_def open_readme_def fh_read_def close_handle_def)

lemma read_readme_Regular:
  "read_readme (Regular bs) s =
     (case utf8_decode bs of
        None \<Rightarrow> (Inl UnicodeDecodeError, s)
      | Some t \<Rightarrow> (Inr (universal_newlines t), s))"
  by (simp add: read_readme_def open_readme_def fh_read_def close_handle_def
           split: option.split)

lemmas read_readme_simps =
  read_readme_Missing read_readme_Unopenable read_readme_Faulty read_readme_Regular

text \<open>The handle opened by the \<^verbatim>\<open>with\<close> block is released on every path.\<close>

lemma read_readme_state: "snd (read_readme r s) = s"
  by (cases r) (simp_all add: read_readme_simps split: option.split)

lemma read_readme_independent: "fst (read_readme r s1) = fst (read_readme r s2)"
  by (cases r) (simp_all add: read_readme_simps split: option.split)

subsection \<open>The run, from the outcome of the read\<close>

lemma setup_py_Inl:
  assumes "fst (read_readme r s) = Inl e"
  shows "setup_py oc r pk s = (Inl e, s)"
proof -
  from assms read_readme_state [of r s] have "read_readme r s = (Inl e, s)"
    by (cases "read_readme r s") simp
  then show ?thesis by (simp add: setup_py_def)
qed

lemma setup_py_Inr:
  assumes "fst (read_readme r s) = Inr t"
  shows "setup_py oc r pk s = setup_call oc (setup_kwargs t pk) s"
proof -
  from assms read_readme_state [of r s] have "read_readme r s = (Inr t, s)"
    by (cases "read_readme r s") simp
  then show ?thesis by (simp add: setup_py_def)
qed

lemma fst_setup_py:
  "fst (setup_py oc r pk s) =
     (case fst (read_readme r s) of
        Inl e \<Rightarrow> Inl e
      | Inr t \<Rightarrow> (case oc (setup_kwargs t pk) of None \<Rightarrow> Inr () | Some e \<Rightarrow> Inl e))"
  by (cases "fst (read_readme r s)") (simp_all add: setup_py_Inl setup_py_Inr setup_call_def)

lemma passed_to_setup_eq:
  "passed_to_setup oc r pk s =
     (case fst (read_readme r s) of Inl e \<Rightarrow> [] | Inr t \<Rightarrow> [setup_kwargs t pk])"
proof (cases "fst (read_readme r s)")
  case (Inl e)
  then show ?thesis by (simp add: passed_to_setup_def setup_py_Inl)
next
  case (Inr t)
  then show ?thesis by (simp add: passed_to_setup_def setup_py_Inr setup_call_def)
qed

text \<open>The calls made do not depend on how \<^verbatim>\<open>setup\<close> behaves.\<close>

lemma passed_to_setup_behaviour:
  "passed_to_setup oc1 r pk s = passed_to_setup oc2 r pk s"
  by (simp add: passed_to_setup_eq)

text \<open>A successful run leaves no handle open and adds exactly one call.\<close>

lemma setup_py_success_state:
  assumes "succeeds oc r pk s"
  shows "open_handles (snd (setup_py oc r pk s)) = open_handles s \<and>
         length (setup_calls (snd (setup_py oc r pk s))) = Suc (length (setup_calls s))"
proof (cases "fst (read_readme r s)")
  case (Inl e)
  with assms show ?thesis by (simp add: succeeds_def fst_setup_py)
next
  case (Inr t)
  then show ?thesis by (simp add: setup_py_Inr setup_call_def)
qed

text \<open>A call that raises is still a call that was made: the state keeps it.\<close>

lemma setup_py_exit_state:
  assumes "fst (read_readme r s) = Inr t" "oc (setup_kwargs t pk) = Some e"
  shows "setup_py oc r pk s = (Inl e, s\<lparr>setup_calls := setup_calls s @ [setup_kwargs t pk]\<rparr>)"
  using assms by (simp add: setup_py_Inr setup_call_def)

subsection \<open>Sanity of the codec model\<close>

lemma utf8_decode_ascii:
  "\<forall>b \<in> set bs. b < 0x80 \<Longrightarrow> utf8_decode bs = Some (map unat bs)"
  by (induction bs) simp_all

lemma universal_newlines_no_cr:
  "13 \<notin> set t \<Longrightarrow> universal_newlines t = t"
  by (induction t rule: universal_newlines.induct) simp_all

text \<open>
  The decoder produces Unicode scalar values only: nothing beyond \<open>U+10FFFF\<close> and no
  surrogate. The bit masks are first read as remainders.
\<close>

lemma and_low_bits:
  fixes b :: byte
  shows "unat (b AND 0x3F) = unat b mod 64"
    and "unat (b AND 0x1F) = unat b mod 32"
    and "unat (b AND 0x0F) = unat b mod 16"
    and "unat (b AND 0x07) = unat b mod 8"
proof -
  have m: "(0x3F :: byte) = mask 6" "(0x1F :: byte) = mask 5" "(0x0F :: byte) = mask 4"
    "(0x07 :: byte) = mask 3"
    by (simp_all add: mask_eq_decr_exp)
  show "unat (b AND 0x3F) = unat b mod 64" "unat (b AND 0x1F) = unat b mod 32"
    "unat (b AND 0x0F) = unat b mod 16" "unat (b AND 0x07) = unat b mod 8"
    unfolding m by (simp_all flip: take_bit_eq_mask add: take_bit_eq_mod unat_mod)
qed

lemma mod_window: "lo \<le> n \<Longrightarrow> n < lo + m \<Longrightarrow> m dvd lo \<Longrightarrow> n mod m + lo = n" for n :: nat
proof -
  assume a: "lo \<le> n" "n < lo + m" "m dvd lo"
  then obtain k where k: "n = lo + k" "k < m" by (metis add_diff_inverse_nat less_diff_conv2 not_less add.commute)
  with a(3) show ?thesis by (simp add: mod_add_left_eq [symmetric] dvd_eq_mod_eq_0)
qed

lemma cont_bits_eq: "is_cont c \<Longrightarrow> cont_bits c + 128 = unat c"
proof -
  assume "is_cont c"
  then have "128 \<le> unat c" "unat c < 128 + 64"
    by (simp_all add: is_cont_def word_le_nat_alt)
  then have "unat c mod 64 + 128 = unat c" by (rule mod_window) simp
  then show ?thesis by (simp add: cont_bits_def and_low_bits)
qed

lemma lead2_eq:
  fixes b :: byte
  assumes "0xC2 \<le> b" "b \<le> 0xDF"
  shows "unat (b AND 0x1F) + 192 = unat b"
proof -
  from assms have "192 \<le> unat b" "unat b < 192 + 32"
    by (simp_all add: word_le_nat_alt)
  then have "unat b mod 32 + 192 = unat b" by (rule mod_window) simp
  then show ?thesis by (simp add: and_low_bits)
qed

lemma lead3_eq:
  fixes b :: byte
  assumes "0xE0 \<le> b" "b \<le> 0xEF"
  shows "unat (b AND 0x0F) + 224 = unat b"
proof -
  from assms have "224 \<le> unat b" "unat b < 224 + 16"
    by (simp_all add: word_le_nat_alt)
  then have "unat b mod 16 + 224 = unat b" by (rule mod_window) simp
  then show ?thesis by (simp add: and_low_bits)
qed

lemma lead4_eq:
  fixes b :: byte
  assumes "0xF0 \<le> b" "b \<le> 0xF4"
  shows "unat (b AND 0x07) + 240 = unat b"
proof -
  from assms have "240 \<le> unat b" "unat b < 240 + 8"
    by (simp_all add: word_le_nat_alt)
  then have "unat b mod 8 + 240 = unat b" by (rule mod_window) simp
  then show ?thesis by (simp add: and_low_bits)
qed

lemma scalar1: "b < 0x80 \<Longrightarrow> scalar_value (unat b)" for b :: byte
  by (simp add: scalar_value_def word_less_nat_alt)

lemma scalar2:
  fixes b :: byte
  assumes "0xC2 \<le> b" "b \<le> 0xDF" "is_cont c1"
  shows "scalar_value (unat (b AND 0x1F) * 64 + cont_bits c1)"
proof -
  from assms have "unat b \<le> 223" "unat c1 \<le> 191"
    by (simp_all add: is_cont_def word_le_nat_alt)
  with lead2_eq [OF assms(1,2)] cont_bits_eq [OF assms(3)] show ?thesis
    unfolding scalar_value_def by linarith
qed

lemma scalar3:
  fixes b :: byte
  assumes "0xE0 \<le> b" "b \<le> 0xEF" "second_ok3 b c1" "is_cont c2"
  shows "scalar_value (unat (b AND 0x0F) * 4096 + cont_bits c1 * 64 + cont_bits c2)"
proof -
  from assms(3) have c1: "is_cont c1"
    by (auto simp add: second_ok3_def is_cont_def word_le_nat_alt split: if_splits)
  from assms c1 have bnd: "unat b \<le> 239" "unat c1 \<le> 191" "unat c2 \<le> 191"
    by (simp_all add: is_cont_def word_le_nat_alt)
  note eqs = lead3_eq [OF assms(1,2)] cont_bits_eq [OF c1] cont_bits_eq [OF assms(4)]
  consider "unat b < 237" | "unat b = 237" | "237 < unat b" by linarith
  then show ?thesis
  proof cases
    case 1
    with eqs bnd show ?thesis unfolding scalar_value_def by linarith
  next
    case 2
    then have "b = 0xED" by (simp add: word_unat_eq_iff)
    with assms(3) have "unat c1 \<le> 159" by (simp add: second_ok3_def word_le_nat_alt)
    with 2 eqs bnd show ?thesis unfolding scalar_value_def by linarith
  next
    case 3
    with eqs bnd show ?thesis unfolding scalar_value_def by linarith
  qed
qed

lemma scalar4:
  fixes b :: byte
  assumes "0xF0 \<le> b" "b \<le> 0xF4" "second_ok4 b c1" "is_cont c2" "is_cont c3"
  shows "scalar_value (unat (b AND 0x07) * 262144 + cont_bits c1 * 4096
                        + cont_bits c2 * 64 + cont_bits c3)"
proof -
  from assms(3) have c1: "is_cont c1"
    by (auto simp add: second_ok4_def is_cont_def word_le_nat_alt split: if_splits)
  from assms c1 have bnd: "240 \<le> unat b" "unat b \<le> 244" "unat c1 \<le> 191" "unat c2 \<le> 191" "unat c3 \<le> 191"
    by (simp_all add: is_cont_def word_le_nat_alt)
  note eqs = lead4_eq [OF assms(1,2)] cont_bits_eq [OF c1] cont_bits_eq [OF assms(4)]
    cont_bits_eq [OF assms(5)]
  consider "unat b = 240" | "240 < unat b" "unat b < 244" | "unat b = 244"
    using bnd by linarith
  then show ?thesis
  proof cases
    case 1
    then have "b = 0xF0" by (simp add: word_unat_eq_iff)
    with assms(3) have "144 \<le> unat c1" by (simp add: second_ok4_def word_le_nat_alt)
    with 1 eqs bnd show ?thesis unfolding scalar_value_def by linarith
  next
    case 2
    with eqs bnd show ?thesis unfolding scalar_value_def by linarith
  next
    case 3
    then have "b = 0xF4" by (simp add: word_unat_eq_iff)
    with assms(3) have "unat c1 \<le> 143" by (simp add: second_ok4_def word_le_nat_alt)
    with 3 eqs bnd show ?thesis unfolding scalar_value_def by linarith
  qed
qed

lemma utf8_decode_Cons_Some:
  assumes "utf8_decode (b # bs) = Some t"
  obtains
    (one) t' where "b < 0x80" "utf8_decode bs = Some t'" "t = unat b # t'"
  | (two) c1 rest t' where "0xC2 \<le> b" "b \<le> 0xDF" "bs = c1 # rest" "is_cont c1"
      "utf8_decode rest = Some t'" "t = (unat (b AND 0x1F) * 64 + cont_bits c1) # t'"
  | (three) c1 c2 rest t' where "0xE0 \<le> b" "b \<le> 0xEF" "bs = c1 # c2 # rest"
      "second_ok3 b c1" "is_cont c2" "utf8_decode rest = Some t'"
      "t = (unat (b AND 0x0F) * 4096 + cont_bits c1 * 64 + cont_bits c2) # t'"
  | (four) c1 c2 c3 rest t' where "0xF0 \<le> b" "b \<le> 0xF4" "bs = c1 # c2 # c3 # rest"
      "second_ok4 b c1" "is_cont c2" "is_cont c3" "utf8_decode rest = Some t'"
      "t = (unat (b AND 0x07) * 262144 + cont_bits c1 * 4096
             + cont_bits c2 * 64 + cont_bits c3) # t'"
proof (cases "b < 0x80")
  case True
  with assms have "map_option (Cons (unat b)) (utf8_decode bs) = Some t" by simp
  then obtain t' where "utf8_decode bs = Some t'" "t = unat b # t'" by auto
  with True show ?thesis by (rule one)
next
  case n1: False
  show ?thesis
  proof (cases "0xC2 \<le> b \<and> b \<le> 0xDF")
    case True
    with n1 assms have
      "(case bs of [] \<Rightarrow> None
        | c1 # rest \<Rightarrow>
            if is_cont c1
            then map_option (Cons (unat (b AND 0x1F) * 64 + cont_bits c1)) (utf8_decode rest)
            else None) = Some t"
      by (simp only: utf8_decode.simps if_True if_False simp_thms)
    then obtain c1 rest t' where "bs = c1 # rest" "is_cont c1" "utf8_decode rest = Some t'"
      "t = (unat (b AND 0x1F) * 64 + cont_bits c1) # t'"
      by (cases bs) (auto split: if_splits)
    with True show ?thesis by (intro two) simp_all
  next
    case n2: False
    show ?thesis
    proof (cases "0xE0 \<le> b \<and> b \<le> 0xEF")
      case True
      with n1 n2 assms have
        "(case bs of
            c1 # c2 # rest \<Rightarrow>
              if second_ok3 b c1 \<and> is_cont c2
              then map_option
                     (Cons (unat (b AND 0x0F) * 4096 + cont_bits c1 * 64 + cont_bits c2))
                     (utf8_decode rest)
              else None
          | _ \<Rightarrow> None) = Some t"
        by (simp only: utf8_decode.simps if_True if_False simp_thms)
      then obtain c1 c2 rest t' where "bs = c1 # c2 # rest" "second_ok3 b c1" "is_cont c2"
        "utf8_decode rest = Some t'"
        "t = (unat (b AND 0x0F) * 4096 + cont_bits c1 * 64 + cont_bits c2) # t'"
        by (auto split: list.splits if_splits)
      with True show ?thesis by (intro three) simp_all
    next
      case n3: False
      show ?thesis
      proof (cases "0xF0 \<le> b \<and> b \<le> 0xF4")
        case True
        with n1 n2 n3 assms have
          "(case bs of
              c1 # c2 # c3 # rest \<Rightarrow>
                if second_ok4 b c1 \<and> is_cont c2 \<and> is_cont c3
                then map_option
                       (Cons (unat (b AND 0x07) * 262144 + cont_bits c1 * 4096
                              + cont_bits c2 * 64 + cont_bits c3))
                       (utf8_decode rest)
                else None
            | _ \<Rightarrow> None) = Some t"
          by (simp only: utf8_decode.simps if_True if_False simp_thms)
        then obtain c1 c2 c3 rest t' where "bs = c1 # c2 # c3 # rest" "second_ok4 b c1"
          "is_cont c2" "is_cont c3" "utf8_decode rest = Some t'"
          "t = (unat (b AND 0x07) * 262144 + cont_bits c1 * 4096
                 + cont_bits c2 * 64 + cont_bits c3) # t'"
          by (auto split: list.splits if_splits)
        with True show ?thesis by (intro four) simp_all
      next
        case False
        with n1 n2 n3 assms have "None = Some t"
          by (simp only: utf8_decode.simps if_True if_False simp_thms)
        then show ?thesis by simp
      qed
    qed
  qed
qed

lemma utf8_decode_scalar_values:
  "utf8_decode bs = Some t \<Longrightarrow> \<forall>c \<in> set t. scalar_value c"
proof (induction "length bs" arbitrary: bs t rule: less_induct)
  case less
  show ?case
  proof (cases bs)
    case Nil
    with less.prems show ?thesis by simp
  next
    case (Cons b bs')
    with less.prems have "utf8_decode (b # bs') = Some t" by simp
    then show ?thesis
    proof (cases rule: utf8_decode_Cons_Some)
      case (one t')
      with Cons less.hyps [of bs' t'] scalar1 [of b] show ?thesis by simp
    next
      case (two c1 rest t')
      with Cons less.hyps [of rest t'] scalar2 [of b c1] show ?thesis by simp
    next
      case (three c1 c2 rest t')
      with Cons less.hyps [of rest t'] scalar3 [of b c1 c2] show ?thesis by simp
    next
      case (four c1 c2 c3 rest t')
      with Cons less.hyps [of rest t'] scalar4 [of b c1 c2 c3] show ?thesis by simp
    qed
  qed
qed

lemma utf8_decode_examples:
  "utf8_decode [0xE2, 0x82, 0xAC] = Some [0x20AC]"
  "utf8_decode [0xF0, 0x9F, 0x98, 0x80] = Some [0x1F600]"
  "utf8_decode [0xEF, 0xBB, 0xBF, 0x41] = Some [0xFEFF, 0x41]"
  "utf8_decode [0xC0, 0x80] = None"
  "utf8_decode [0xED, 0xA0, 0x80] = None"
  "utf8_decode [0xF4, 0x90, 0x80, 0x80] = None"
  "utf8_decode [0xE2, 0x82] = None"
  "utf8_decode [0x80] = None"
  by (simp_all add: is_cont_def cont_bits_def second_ok3_def second_ok4_def)

subsection \<open>The claims\<close>




text \<open>
  C2. Whenever \<^verbatim>\<open>README.md\<close> is absent, processing \<^verbatim>\<open>setup.py\<close> fails with
  \<^verbatim>\<open>FileNotFoundError\<close>, a file-access error that nothing in the manifest catches;
  the state is as before and no call of \<^verbatim>\<open>setup\<close> has been made.
\<close>

theorem missing_readme_raises:
  "setup_py oc Missing pk s = (Inl FileNotFoundError, s) \<and>
   is_file_access_error FileNotFoundError \<and> passed_to_setup oc Missing pk s = []"
  by (simp add: setup_py_Inl read_readme_Missing passed_to_setup_eq is_file_access_error_def)




text \<open>
  C4. In every build, the \<^verbatim>\<open>install_requires\<close> list of every call of
  \<^verbatim>\<open>setup\<close> the manifest makes is empty.
\<close>

theorem install_requires_empty:
  "\<forall>kw \<in> set (passed_to_setup oc r pk s). install_requires kw = []"
  by (auto simp add: passed_to_setup_eq setup_kwargs_def split: sum.splits)

theorem install_requires_empty_witness:
  "\<exists>kw. passed_to_setup setup_returns (Regular []) [] \<lparr>open_handles = 0, setup_calls = []\<rparr> = [kw] \<and> install_requires kw = []"
  using install_requires_empty [of setup_returns "Regular []" "[]" "\<lparr>open_handles = 0, setup_calls = []\<rparr>"]
  by (simp add: passed_to_setup_eq read_readme_Regular)

text \<open>
  C5. In every build, \<^verbatim>\<open>extras_require\<close> has exactly one entry, the extra
  \<open>dev\<close>, with the three requirements \<open>pytest>=6.0\<close>, \<open>black\<close> and \<open>flake8\<close>.
\<close>

theorem extras_require_dev:
  "\<forall>kw \<in> set (passed_to_setup oc r pk s).
     extras_require kw = [(''dev'', [''pytest>=6.0'', ''black'', ''flake8''])]"
  by (auto simp add: passed_to_setup_eq setup_kwargs_def split: sum.splits)

theorem extras_require_dev_witness:
  "\<exists>kw. passed_to_setup setup_returns (Regular []) [] \<lparr>open_handles = 0, setup_calls = []\<rparr> = [kw] \<and>
        extras_require kw = [(''dev'', [''pytest>=6.0'', ''black'', ''flake8''])]"
  using extras_require_dev [of setup_returns "Regular []" "[]" "\<lparr>open_handles = 0, setup_calls = []\<rparr>"]
  by (simp add: passed_to_setup_eq read_readme_Regular)

text \<open>
  C6. For every content of \<^verbatim>\<open>README.md\<close> that decodes, the
  \<^verbatim>\<open>long_description\<close> passed to \<^verbatim>\<open>setup\<close> is exactly the text that
  \<^verbatim>\<open>fh.read()\<close> returned: the whole decoded content, with the line endings as text
  mode delivers them.
\<close>

theorem long_description_is_text_read:
  assumes "utf8_decode bs = Some t"
  shows "fst (read_readme (Regular bs) s) = Inr (universal_newlines t) \<and>
         (\<exists>kw. passed_to_setup oc (Regular bs) pk s = [kw] \<and>
               long_description kw = universal_newlines t)"
  using assms by (simp add: passed_to_setup_eq read_readme_Regular setup_kwargs_def)

theorem long_description_is_text_read_witness:
  "utf8_decode [0x68, 0x0D, 0x0A] = Some [104, 13, 10] \<and>
   fst (read_readme (Regular [0x68, 0x0D, 0x0A]) \<lparr>open_handles = 0, setup_calls = []\<rparr>) = Inr [104, 10] \<and>
   (\<exists>kw. passed_to_setup setup_returns (Regular [0x68, 0x0D, 0x0A]) [] \<lparr>open_handles = 0, setup_calls = []\<rparr> = [kw] \<and>
      long_description kw = [104, 10])"
proof -
  have h: "utf8_decode [0x68, 0x0D, 0x0A] = Some [104, 13, 10]" by simp
  from long_description_is_text_read [OF h, of "\<lparr>open_handles = 0, setup_calls = []\<rparr>" setup_returns "[]"] h
  show ?thesis by simp
qed

text \<open>
  C7. \<^verbatim>\<open>README.md\<close> is decoded as UTF-8: a file that is there and opens, but whose
  bytes are not valid UTF-8, makes the build fail with \<^verbatim>\<open>UnicodeDecodeError\<close>,
  which is not a file-access error.
\<close>

theorem invalid_utf8_raises_decode_error:
  assumes "utf8_decode bs = None"
  shows "setup_py oc (Regular bs) pk s = (Inl UnicodeDecodeError, s) \<and>
         \<not> is_file_access_error UnicodeDecodeError"
  using assms by (simp add: setup_py_Inl read_readme_Regular is_file_access_error_def)

theorem invalid_utf8_raises_decode_error_witness:
  "utf8_decode [0xC3, 0x28] = None \<and>
   setup_py setup_returns (Regular [0xC3, 0x28]) [] \<lparr>open_handles = 0, setup_calls = []\<rparr> = (Inl UnicodeDecodeError, \<lparr>open_handles = 0, setup_calls = []\<rparr>)"
proof -
  have h: "utf8_decode [0xC3, 0x28] = None" by (simp add: is_cont_def)
  from invalid_utf8_raises_decode_error [OF h] h show ?thesis by blast
qed

text \<open>
  C8. The read comes before the call: when the read of \<^verbatim>\<open>README.md\<close> fails, the
  run ends with that error, the state is the one it started from (the handle, if one was
  opened, is released) and no call of \<^verbatim>\<open>setup\<close> has been made.
\<close>

theorem read_failure_leaves_state:
  assumes "fst (read_readme r s) = Inl e"
  shows "setup_py oc r pk s = (Inl e, s) \<and> passed_to_setup oc r pk s = []"
  using assms by (simp add: setup_py_Inl passed_to_setup_eq)

theorem read_failure_leaves_state_witness:
  "fst (read_readme Faulty \<lparr>open_handles = 0, setup_calls = []\<rparr>) = Inl OSError \<and>
   setup_py setup_returns Faulty [] \<lparr>open_handles = 0, setup_calls = []\<rparr> = (Inl OSError, \<lparr>open_handles = 0, setup_calls = []\<rparr>) \<and>
   passed_to_setup setup_returns Faulty [] \<lparr>open_handles = 0, setup_calls = []\<rparr> = []"
proof -
  have h: "fst (read_readme Faulty \<lparr>open_handles = 0, setup_calls = []\<rparr>) = Inl OSError"
    by (simp add: read_readme_Faulty)
  from read_failure_leaves_state [OF h] h show ?thesis by blast
qed

text \<open>
  C9. Two runs over the same \<^verbatim>\<open>README.md\<close> pass the same name, version, author,
  author_email, description, long_description, long_description_content_type, url,
  classifiers, python_requires, install_requires and extras_require to
  \<^verbatim>\<open>setup\<close>, whatever \<^verbatim>\<open>find_packages()\<close> returns, whatever state each run
  starts from and however \<^verbatim>\<open>setup\<close> then behaves. The read ends the same way in
  both, and so does the run when \<^verbatim>\<open>find_packages()\<close> and the behaviour of
  \<^verbatim>\<open>setup\<close> are the same too.
\<close>

theorem metadata_deterministic:
  "map listed_fields (passed_to_setup oc1 r pk1 s1)
     = map listed_fields (passed_to_setup oc2 r pk2 s2) \<and>
   fst (read_readme r s1) = fst (read_readme r s2) \<and>
   fst (setup_py oc r pk s1) = fst (setup_py oc r pk s2)"
  using read_readme_independent [of r s1 s2]
  by (simp add: fst_setup_py passed_to_setup_eq listed_fields_def setup_kwargs_def
           split: sum.split)

end
